theory Spec2Isabelle
  imports Main
begin

section \<open>Python values used by the alert relay\<close>

text \<open>
  The program is one Python module, \<^verbatim>\<open>app.py\<close>. Its text values are Python \<^verbatim>\<open>str\<close>;
  they are modelled by \<^typ>\<open>string\<close>, each \<^typ>\<open>char\<close> read as the code point below 256
  with the same number. Text with code points beyond 255 is outside the model. On this
  range the functions below are the ones of Python: the white space of \<^verbatim>\<open>str.split()\<close>
  and \<^verbatim>\<open>str.strip()\<close>, the case mapping of \<^verbatim>\<open>str.lower()\<close>, the grammar of
  \<^verbatim>\<open>int(str)\<close>.

  Exceptions are values. The constructors name the classes that the modelled code itself
  can raise; \<open>Failure\<close> stands for any other subclass of \<^verbatim>\<open>Exception\<close> that a
  collaborator (storage client, clock, language model) raises. Each carries the text
  that \<^verbatim>\<open>str(e)\<close> gives.
\<close>

datatype py_exception =
    ValueError string
  | IndexError string
  | KeyError string
  | TypeError string
  | AttributeError string
  | Failure string

fun str_exception :: "py_exception \<Rightarrow> string" where
  "str_exception (ValueError m) = m"
| "str_exception (IndexError m) = m"
| "str_exception (KeyError m) = m"
| "str_exception (TypeError m) = m"
| "str_exception (AttributeError m) = m"
| "str_exception (Failure m) = m"

text \<open>Sequencing of two steps of which the first may raise.\<close>

definition bind :: "py_exception + 'a \<Rightarrow> ('a \<Rightarrow> py_exception + 'b) \<Rightarrow> py_exception + 'b" where
  "bind m f = (case m of Inl e \<Rightarrow> Inl e | Inr x \<Rightarrow> f x)"

fun is_ValueError :: "py_exception \<Rightarrow> bool" where
  "is_ValueError (ValueError m) = True"
| "is_ValueError e = False"

subsection \<open>Strings\<close>

text \<open>
  \<^verbatim>\<open>str.isspace\<close> on one character, for code points below 256: TAB, LF, VT, FF, CR,
  the four separators FS, GS, RS, US, the space, NEL (0x85) and the no-break space (0xA0).
\<close>

definition is_space :: "char \<Rightarrow> bool" where
  "is_space c = (of_char c \<in> {9, 10, 11, 12, 13, 28, 29, 30, 31, 32, 133, 160 :: nat})"

text \<open>
  \<^verbatim>\<open>str.lower()\<close>, for code points below 256: A to Z, and the Latin-1 capitals 0xC0 to
  0xDE without the multiplication sign 0xD7, move up by 32; the result has the length of
  the argument.
\<close>

definition lower_char :: "char \<Rightarrow> char" where
  "lower_char c =
     (let n = (of_char c :: nat)
      in if (65 \<le> n \<and> n \<le> 90) \<or> (192 \<le> n \<and> n \<le> 222 \<and> n \<noteq> 215)
         then char_of (n + 32) else c)"

definition lower :: "string \<Rightarrow> string" where
  "lower s = map lower_char s"

definition startswith :: "string \<Rightarrow> string \<Rightarrow> bool" where
  "startswith s p = (take (length p) s = p)"

text \<open>
  \<^verbatim>\<open>str.split()\<close> with no argument: skip white space, take the run of other characters
  as a token, repeat; no token is empty.
\<close>

function split :: "string \<Rightarrow> string list" where
  "split s =
     (let s' = dropWhile is_space s
      in if s' = [] then []
         else takeWhile (\<lambda>c. \<not> is_space c) s' # split (dropWhile (\<lambda>c. \<not> is_space c) s'))"
  by pat_completeness auto
termination
proof (relation "measure length")
  show "wf (measure length)" by simp
next
  fix s s' :: string
  assume s': "s' = dropWhile is_space s" and ne: "s' \<noteq> []"
  from ne have "\<not> is_space (hd s')"
    unfolding s' by (rule hd_dropWhile)
  with ne have "length (dropWhile (\<lambda>c. \<not> is_space c) s') < length s'"
    by (cases s') (simp_all add: less_Suc_eq_le length_dropWhile_le)
  also have "length s' \<le> length s"
    unfolding s' by (rule length_dropWhile_le)
  finally show "(dropWhile (\<lambda>c. \<not> is_space c) s', s) \<in> measure length"
    by simp
qed

declare split.simps [simp del]

text \<open>\<^verbatim>\<open>sep.join(parts)\<close>.\<close>

fun join :: "string \<Rightarrow> string list \<Rightarrow> string" where
  "join sep [] = []"
| "join sep [x] = x"
| "join sep (x # y # ys) = x @ sep @ join sep (y # ys)"

text \<open>\<^verbatim>\<open>str.strip()\<close> with no argument.\<close>

definition strip :: "string \<Rightarrow> string" where
  "strip s = rev (dropWhile is_space (rev (dropWhile is_space s)))"

text \<open>
  \<^verbatim>\<open>token.split(sep, 1)\<close> for a separator of one character: the text before the first
  separator and the text after it, or the token alone when it has no separator.
\<close>

definition split1 :: "char \<Rightarrow> string \<Rightarrow> string list" where
  "split1 sep s =
     (if sep \<in> set s
      then [takeWhile (\<lambda>c. c \<noteq> sep) s, tl (dropWhile (\<lambda>c. c \<noteq> sep) s)]
      else [s])"

text \<open>\<^verbatim>\<open>xs[i]\<close> for an index that is not negative: out of range raises.\<close>

definition index :: "'a list \<Rightarrow> nat \<Rightarrow> py_exception + 'a" where
  "index xs i = (if i < length xs then Inr (xs ! i) else Inl (IndexError ''list index out of range''))"

subsection \<open>Integers from and to text\<close>

definition is_digit :: "char \<Rightarrow> bool" where
  "is_digit c = (48 \<le> (of_char c :: nat) \<and> (of_char c :: nat) \<le> 57)"

definition digit_value :: "char \<Rightarrow> int" where
  "digit_value c = int (of_char c) - 48"

text \<open>
  The digits of a decimal literal, after the sign: a digit, then digits each of which
  may have one underscore before it (\<^verbatim>\<open>int("1_000") == 1000\<close>; \<^verbatim>\<open>"_1"\<close>,
  \<^verbatim>\<open>"1_"\<close> and \<^verbatim>\<open>"1__0"\<close> are refused). \<open>int_digits acc after_digit s\<close> reads \<open>s\<close>
  with the value \<open>acc\<close> so far; \<open>after_digit\<close> says that the last character read was a
  digit, so that an underscore or the end may follow.
\<close>

fun int_digits :: "int \<Rightarrow> bool \<Rightarrow> string \<Rightarrow> int option" where
  "int_digits acc after_digit [] = (if after_digit then Some acc else None)"
| "int_digits acc after_digit (c # cs) =
     (if is_digit c then int_digits (10 * acc + digit_value c) True cs
      else if c = CHR ''_'' \<and> after_digit then int_digits acc False cs
      else None)"

text \<open>
  \<^verbatim>\<open>int(s)\<close> for a text without white space (a token of \<open>split\<close> has none): an
  optional sign and the digits; anything else raises ValueError. The interpreter's limit
  on the number of digits (4300 by default since Python 3.11) raises the same
  ValueError and is left out.
\<close>

definition py_int :: "string \<Rightarrow> py_exception + int" where
  "py_int s =
     (let (neg, body) =
            (case s of
               c # cs \<Rightarrow> if c = CHR ''-'' then (True, cs)
                          else if c = CHR ''+'' then (False, cs) else (False, s)
             | [] \<Rightarrow> (False, s))
      in case int_digits 0 False body of
           None \<Rightarrow> Inl (ValueError ''invalid literal for int() with base 10'')
         | Some n \<Rightarrow> Inr (if neg then - n else n))"

text \<open>\<^verbatim>\<open>str(n)\<close> for an integer: its decimal digits, with a minus sign when negative.\<close>

fun str_nat :: "nat \<Rightarrow> string" where
  "str_nat n = (if n < 10 then [char_of (48 + n)] else str_nat (n div 10) @ [char_of (48 + n mod 10)])"

declare str_nat.simps [simp del]

definition str_int :: "int \<Rightarrow> string" where
  "str_int i = (if i < 0 then CHR ''-'' # str_nat (nat (- i)) else str_nat (nat i))"

section \<open>Filter parser\<close>

text \<open>
  \<^verbatim>\<open>parse_prompt_and_filters(text)\<close>. The module constant
  \<^verbatim>\<open>ASK_DEFAULT_SINCE_DAYS\<close> is the first argument. The loop over the tokens carries
  \<open>service\<close>, \<open>since_days\<close> and \<open>parts\<close>. \<^verbatim>\<open>token.split(":", 1)[1]\<close> is an
  indexing that can raise; only the ValueError of \<^verbatim>\<open>int\<close> is caught.
\<close>

fun parse_tokens ::
  "string list \<Rightarrow> string option \<Rightarrow> int \<Rightarrow> string list
     \<Rightarrow> py_exception + (string option \<times> int \<times> string list)" where
  "parse_tokens [] service since_days parts = Inr (service, since_days, parts)"
| "parse_tokens (token # tokens) service since_days parts =
     (if startswith (lower token) ''service:'' then
        (case index (split1 CHR '':'' token) 1 of
           Inl e \<Rightarrow> Inl e
         | Inr v \<Rightarrow> parse_tokens tokens (Some v) since_days parts)
      else if startswith (lower token) ''since:'' then
        (case index (split1 CHR '':'' token) 1 of
           Inl e \<Rightarrow> Inl e
         | Inr v \<Rightarrow>
             (case py_int v of
                Inl e \<Rightarrow> if is_ValueError e then parse_tokens tokens service since_days parts
                         else Inl e
              | Inr n \<Rightarrow> parse_tokens tokens service (max 1 n) parts))
      else parse_tokens tokens service since_days (parts @ [token]))"

definition parse_prompt_and_filters ::
  "int \<Rightarrow> string \<Rightarrow> py_exception + (string \<times> string option \<times> int)" where
  "parse_prompt_and_filters ASK_DEFAULT_SINCE_DAYS text =
     (case parse_tokens (split text) None ASK_DEFAULT_SINCE_DAYS [] of
        Inl e \<Rightarrow> Inl e
      | Inr (service, since_days, parts) \<Rightarrow> Inr (strip (join '' '' parts), service, since_days))"

text \<open>
  The tokens that the loop consumes as filters; every other token is kept for the
  question.
\<close>

definition is_filter :: "string \<Rightarrow> bool" where
  "is_filter token =
     (startswith (lower token) ''service:'' \<or> startswith (lower token) ''since:'')"

text \<open>What \<open>split\<close> yields: a text that is not empty and has no white space.\<close>

definition is_token :: "string \<Rightarrow> bool" where
  "is_token t = (t \<noteq> [] \<and> list_all (\<lambda>c. \<not> is_space c) t)"

section \<open>Context fetcher\<close>

text \<open>The module constants read from the environment at start.\<close>

record config =
  PROJECT :: "string option"
  BQ_DATASET :: string
  BQ_TABLE :: string
  ASK_DEFAULT_SINCE_DAYS :: int
  ASK_MAX_ROWS :: int
  ASK_TS_COLUMN :: string
  ASK_SERVICE_COLUMN :: string

text \<open>
  The collaborators, as functions that return or raise. \<open>'row\<close> is a row of the store
  after \<^verbatim>\<open>dict(r)\<close>; the program reads no column of it.
  \<^item> \<open>bq_Client project\<close> is \<^verbatim>\<open>bigquery.Client(project=PROJECT)\<close>;
  \<^item> \<open>bq_QueryJobConfig parameters\<close> is
    \<^verbatim>\<open>bigquery.QueryJobConfig(query_parameters=...)\<close>, a call of the library that can
    raise; a parameter is the triple of name, type and value of a
    \<^verbatim>\<open>ScalarQueryParameter\<close>, and the configuration returned is known by its list of
    parameters;
  \<^item> \<open>bq_query sql job_config\<close> is \<^verbatim>\<open>client.query(sql, job_config=job_config).result()\<close>
    read to its end;
  \<^item> \<open>start_ts_iso since_days\<close> is
    \<^verbatim>\<open>(datetime.now(timezone.utc) - timedelta(days=since_days)).isoformat()\<close>, which
    raises OverflowError for a date before year 1;
  \<^item> \<open>gen\<close> is \<^verbatim>\<open>_gen\<close>: absent, or \<^verbatim>\<open>generate_content\<close>, whose response is the
    list of its candidates, each the texts of its content parts;
  \<^item> \<open>json_dumps rows\<close> is \<^verbatim>\<open>json.dumps(rows, default=str)\<close>. It is taken to
    return a text for every list of rows: the keys of a row are column names, and a value
    that JSON does not know is turned into text by \<^verbatim>\<open>str\<close>.
\<close>

record 'row collaborators =
  bq_Client :: "string \<Rightarrow> py_exception + unit"
  bq_QueryJobConfig ::
    "(string \<times> string \<times> string) list option \<Rightarrow> py_exception + (string \<times> string \<times> string) list"
  bq_query :: "string \<Rightarrow> (string \<times> string \<times> string) list \<Rightarrow> py_exception + 'row list"
  start_ts_iso :: "int \<Rightarrow> py_exception + string"
  gen :: "(string \<Rightarrow> py_exception + string list list) option"
  json_dumps :: "'row list \<Rightarrow> string"

definition nl :: string where
  "nl = [CHR 0x0A]"

text \<open>Truth value of an optional text: \<^verbatim>\<open>None\<close> and the empty text are false.\<close>

fun truthy_str :: "string option \<Rightarrow> bool" where
  "truthy_str None = False"
| "truthy_str (Some s) = (s \<noteq> [])"

definition ts_condition :: "config \<Rightarrow> string \<Rightarrow> string" where
  "ts_condition cfg start_ts = ASK_TS_COLUMN cfg @ '' >= TIMESTAMP('' @ [CHR 0x27] @ start_ts @ [CHR 0x27] @ '')''"

definition service_condition :: "config \<Rightarrow> string" where
  "service_condition cfg = ''LOWER('' @ ASK_SERVICE_COLUMN cfg @ '') = LOWER(@service)''"

text \<open>The list \<^verbatim>\<open>where\<close> of \<^verbatim>\<open>fetch_logs\<close>.\<close>

definition fetch_where :: "config \<Rightarrow> string option \<Rightarrow> string \<Rightarrow> string list" where
  "fetch_where cfg service start_ts =
     (if truthy_str service
      then [ts_condition cfg start_ts] @ [service_condition cfg]
      else [ts_condition cfg start_ts])"

definition fetch_sql :: "config \<Rightarrow> string \<Rightarrow> string option \<Rightarrow> string \<Rightarrow> string" where
  "fetch_sql cfg project service start_ts =
     (let table_id = ''`'' @ project @ ''.'' @ BQ_DATASET cfg @ ''.'' @ BQ_TABLE cfg @ ''`'';
          where_clause = join '' AND '' (fetch_where cfg service start_ts)
      in nl @ ''            SELECT *'' @
         nl @ ''            FROM '' @ table_id @
         nl @ ''            WHERE '' @ where_clause @
         nl @ ''            ORDER BY '' @ ASK_TS_COLUMN cfg @ '' DESC'' @
         nl @ ''            LIMIT '' @ str_int (ASK_MAX_ROWS cfg) @
         nl @ ''        '')"

text \<open>
  The argument \<^verbatim>\<open>query_parameters\<close> of the job configuration: the list of one
  parameter \<^verbatim>\<open>if service\<close>, \<^verbatim>\<open>None\<close> otherwise.
\<close>

definition fetch_parameters :: "string option \<Rightarrow> (string \<times> string \<times> string) list option" where
  "fetch_parameters service =
     (case service of
        Some s \<Rightarrow> if s \<noteq> [] then Some [(''service'', ''STRING'', s)] else None
      | None \<Rightarrow> None)"

text \<open>The body of the \<^verbatim>\<open>try\<close> of \<^verbatim>\<open>fetch_logs\<close>.\<close>

definition fetch_logs_try ::
  "config \<Rightarrow> 'row collaborators \<Rightarrow> string \<Rightarrow> string option \<Rightarrow> int \<Rightarrow> py_exception + 'row list" where
  "fetch_logs_try cfg co project service since_days =
     bind (bq_Client co project) (\<lambda>client.
     bind (start_ts_iso co since_days) (\<lambda>start_ts.
     bind (bq_QueryJobConfig co (fetch_parameters service)) (\<lambda>job_config.
     bq_query co (fetch_sql cfg project service start_ts) job_config)))"

text \<open>
  \<^verbatim>\<open>fetch_logs(service, since_days)\<close>: nothing without a project, and
  \<^verbatim>\<open>except Exception\<close> turns every exception of the body into the empty list.
\<close>

definition fetch_logs ::
  "config \<Rightarrow> 'row collaborators \<Rightarrow> string option \<Rightarrow> int \<Rightarrow> 'row list" where
  "fetch_logs cfg co service since_days =
     (case PROJECT cfg of
        None \<Rightarrow> []
      | Some project \<Rightarrow>
          if project = [] then []
          else (case fetch_logs_try cfg co project service since_days of
                  Inl e \<Rightarrow> []
                | Inr out \<Rightarrow> out))"

section \<open>Answer composer\<close>

definition context_rows :: "'row list \<Rightarrow> 'row list" where
  "context_rows rows = take (min (length rows) 50) rows"

definition context_snippets :: "('row list \<Rightarrow> string) \<Rightarrow> 'row list \<Rightarrow> string" where
  "context_snippets dumps rows = (if rows \<noteq> [] then dumps (context_rows rows) else ''[]'')"

definition sys_instruction :: string where
  "sys_instruction =
     ''You are a reliability assistant. Use the provided recent logs to answer the user'' @ [CHR 0x27] @ ''s question. '' @
     ''Cite services, time ranges, and themes if visible; be concise and actionable.''"

definition llm_prompt :: "('row list \<Rightarrow> string) \<Rightarrow> string \<Rightarrow> 'row list \<Rightarrow> string" where
  "llm_prompt dumps user_prompt rows =
     sys_instruction @ nl @ nl @ ''Recent rows JSON (truncated):'' @ nl @
     context_snippets dumps rows @ nl @ nl @ ''User question:'' @ nl @ user_prompt"

text \<open>
  \<^verbatim>\<open>resp.candidates[0].content.parts[0].text\<close>: both indexings can raise.
\<close>

definition first_text :: "string list list \<Rightarrow> py_exception + string" where
  "first_text resp = bind (index resp 0) (\<lambda>candidate. index candidate 0)"

definition vertex_error :: "py_exception \<Rightarrow> string" where
  "vertex_error e = ''(Vertex error: '' @ str_exception e @ '')''"

definition vertex_fallback :: "string \<Rightarrow> nat \<Rightarrow> string" where
  "vertex_fallback user_prompt n =
     ''(Vertex not configured) Based on recent rows ('' @ str_nat n @
     '' found), no major anomalies detected. Question: '' @ user_prompt"

text \<open>\<^verbatim>\<open>llm_answer(user_prompt, rows)\<close>.\<close>

definition llm_answer :: "'row collaborators \<Rightarrow> string \<Rightarrow> 'row list \<Rightarrow> string" where
  "llm_answer co user_prompt rows =
     (let prompt = llm_prompt (json_dumps co) user_prompt rows
      in case gen co of
           Some generate_content \<Rightarrow>
             (case bind (generate_content prompt) first_text of
                Inr answer \<Rightarrow> answer
              | Inl e \<Rightarrow> vertex_error e)
         | None \<Rightarrow> vertex_fallback user_prompt (length rows))"

section \<open>Command router\<close>

text \<open>
  The event is the body of the request after \<^verbatim>\<open>request.json()\<close>: any JSON value.
  An object is the association list of its members, read from the front: of a key that
  occurs twice the first entry counts. Numbers are integers here; the router only asks
  whether a number is zero.
\<close>

datatype json =
    JNull
  | JBool bool
  | JNum int
  | JStr string
  | JArr "json list"
  | JObj "(string \<times> json) list"

text \<open>Truth value of a Python object that came from JSON.\<close>

fun truthy :: "json \<Rightarrow> bool" where
  "truthy JNull = False"
| "truthy (JBool b) = b"
| "truthy (JNum n) = (n \<noteq> 0)"
| "truthy (JStr s) = (s \<noteq> [])"
| "truthy (JArr xs) = (xs \<noteq> [])"
| "truthy (JObj kvs) = (kvs \<noteq> [])"

text \<open>
  \<^verbatim>\<open>obj.get(key, default)\<close>: only a \<^verbatim>\<open>dict\<close> has the method, every other value
  raises AttributeError.
\<close>

fun get :: "json \<Rightarrow> string \<Rightarrow> json \<Rightarrow> py_exception + json" where
  "get (JObj kvs) key dflt = Inr (case map_of kvs key of Some v \<Rightarrow> v | None \<Rightarrow> dflt)"
| "get v key dflt = Inl (AttributeError ''object has no attribute get'')"

text \<open>\<^verbatim>\<open>obj[key]\<close> for a text key.\<close>

fun item :: "json \<Rightarrow> string \<Rightarrow> py_exception + json" where
  "item (JObj kvs) key = (case map_of kvs key of Some v \<Rightarrow> Inr v | None \<Rightarrow> Inl (KeyError key))"
| "item v key = Inl (TypeError ''indices must be integers or the object is not subscriptable'')"

text \<open>\<^verbatim>\<open>value.strip()\<close>: only a \<^verbatim>\<open>str\<close> has the method.\<close>

fun strip_method :: "json \<Rightarrow> py_exception + string" where
  "strip_method (JStr s) = Inr (strip s)"
| "strip_method v = Inl (AttributeError ''object has no attribute strip'')"

definition usage_ask :: string where
  "usage_ask =
     ''Usage: `/ask <question> [service:... since:N]`'' @ nl @
     ''Example: `/ask why is auth failing? service:user-auth since:1`''"

definition usage_mention :: string where
  "usage_mention =
     ''Usage: `@Prod Alert AI <question>` or `/ask <question>`'' @ nl @
     ''Example: `@Prod Alert AI why is auth failing?`''"

definition greeting :: string where
  "greeting =
     ''Hey! I monitor production errors and can answer questions.'' @ nl @
     ''Type `/ask <question>` or mention me with `@Prod Alert AI <question>`.''"

definition default_text :: string where
  "default_text =
     ''I monitor production errors. Type `/ask <question>` or mention me to investigate.''"

text \<open>\<^verbatim>\<open>{"name": thread_name} if thread_name else None\<close>.\<close>

definition thread_field :: "json \<Rightarrow> json" where
  "thread_field thread_name = (if truthy thread_name then JObj [(''name'', thread_name)] else JNull)"

text \<open>
  The block that the three pipelines of \<^verbatim>\<open>chat_endpoint\<close> repeat word for word
  (lines 301 to 320, 336 to 355, 375 to 384): parse, fetch, answer, and the response
  dictionary with its two keys.
\<close>

definition ask_response ::
  "config \<Rightarrow> 'row collaborators \<Rightarrow> string \<Rightarrow> json \<Rightarrow> py_exception + json" where
  "ask_response cfg co text thread_name =
     bind (parse_prompt_and_filters (ASK_DEFAULT_SINCE_DAYS cfg) text)
       (\<lambda>(user_prompt, service, since_days).
          let rows = fetch_logs cfg co service since_days;
              answer = llm_answer co user_prompt rows;
              response_text = ''**Q:** '' @ user_prompt @ nl @ ''**A:** '' @ answer;
              response_text =
                (if rows \<noteq> []
                 then response_text @ nl @ nl @ ''*Based on '' @ str_nat (length rows) @ '' recent alerts*''
                 else response_text)
          in Inr (JObj [(''text'', JStr response_text),
                        (''thread'', thread_field thread_name)]))"

text \<open>
  \<^verbatim>\<open>event.get("chat") and event.get("chat", {}).get(key)\<close>: the value of \<^verbatim>\<open>and\<close> is
  its left operand when that is false.
\<close>

definition chat_payload :: "json \<Rightarrow> string \<Rightarrow> py_exception + json" where
  "chat_payload event key =
     bind (get event ''chat'' JNull) (\<lambda>chat.
       if truthy chat
       then bind (get event ''chat'' (JObj [])) (\<lambda>chat'. get chat' key JNull)
       else Inr chat)"

text \<open>
  The slash-command and the mention handlers after their test: the same steps, with
  their own usage text.
\<close>

definition payload_reply ::
  "config \<Rightarrow> 'row collaborators \<Rightarrow> json \<Rightarrow> string \<Rightarrow> string \<Rightarrow> py_exception + json" where
  "payload_reply cfg co event key usage =
     bind (item event ''chat'') (\<lambda>chat.
     bind (item chat key) (\<lambda>payload.
     bind (get payload ''message'' (JObj [])) (\<lambda>message.
     bind (get message ''argumentText'' (JStr [])) (\<lambda>argument.
     bind (strip_method argument) (\<lambda>text.
     bind (get message ''thread'' (JObj [])) (\<lambda>thread.
     bind (get thread ''name'' JNull) (\<lambda>thread_name.
       if text = [] then Inr (JObj [(''text'', JStr usage)])
       else ask_response cfg co text thread_name)))))))"

text \<open>
  The thread name of the original event format:
  \<^verbatim>\<open>event.get("message", {}).get("thread", {}).get("name") if event.get("message") else None\<close>.
\<close>

definition event_thread_name :: "json \<Rightarrow> py_exception + json" where
  "event_thread_name event =
     bind (get event ''message'' JNull) (\<lambda>m.
       if truthy m
       then bind (get event ''message'' (JObj [])) (\<lambda>message.
            bind (get message ''thread'' (JObj [])) (\<lambda>thread.
            get thread ''name'' JNull))
       else Inr JNull)"

text \<open>
  The text of a plain message:
  \<^verbatim>\<open>(message.get("argumentText") or message.get("text") or "").strip()\<close>.
\<close>

definition event_text :: "json \<Rightarrow> py_exception + string" where
  "event_text event =
     bind (get event ''message'' (JObj [])) (\<lambda>message.
     bind (get message ''argumentText'' JNull) (\<lambda>argument.
     bind (if truthy argument then Inr argument
           else bind (get event ''message'' (JObj [])) (\<lambda>message'.
                bind (get message' ''text'' JNull) (\<lambda>t.
                Inr (if truthy t then t else JStr [])))) (\<lambda>v.
     strip_method v)))"

text \<open>
  \<^verbatim>\<open>chat_endpoint(request)\<close> from the parsed event on. An exception that leaves it is
  the server's error response.
\<close>

definition chat_endpoint :: "config \<Rightarrow> 'row collaborators \<Rightarrow> json \<Rightarrow> py_exception + json" where
  "chat_endpoint cfg co event =
     bind (chat_payload event ''appCommandPayload'') (\<lambda>slash.
       if truthy slash then payload_reply cfg co event ''appCommandPayload'' usage_ask
       else
     bind (chat_payload event ''messagePayload'') (\<lambda>mention.
       if truthy mention then payload_reply cfg co event ''messagePayload'' usage_mention
       else
     bind (event_thread_name event) (\<lambda>thread_name.
     bind (get event ''type'' JNull) (\<lambda>etype.
       if etype = JStr ''ADDED_TO_SPACE'' then Inr (JObj [(''text'', JStr greeting)])
       else if etype = JStr ''MESSAGE'' then
         bind (event_text event) (\<lambda>text.
           if text = [] then Inr (JObj [(''text'', JStr usage_ask)])
           else ask_response cfg co text thread_name)
       else Inr (JObj [(''text'', JStr default_text)])))))"

text \<open>
  \<^verbatim>\<open>_reply_text(text, thread_name)\<close>, a helper that no route calls: it leaves the
  key \<^verbatim>\<open>thread\<close> out when there is no thread name.
\<close>

definition reply_text :: "string \<Rightarrow> string option \<Rightarrow> json" where
  "reply_text text thread_name =
     (let response = [(''text'', JStr text)];
          response =
            (case thread_name of
               Some n \<Rightarrow> if n \<noteq> [] then response @ [(''thread'', JObj [(''name'', JStr n)])] else response
             | None \<Rightarrow> response)
      in JObj response)"

subsection \<open>Shapes of events\<close>

text \<open>
  Words for the statements about the router. \<open>field kvs key\<close> is the member of an
  object, \<^verbatim>\<open>None\<close> when it has none. \<open>chat_without_payload\<close> holds of the value of
  the event's \<^verbatim>\<open>chat\<close> member when the two payload tests fail without raising: the
  value is false, or an object with no true \<^verbatim>\<open>appCommandPayload\<close> and no true
  \<^verbatim>\<open>messagePayload\<close>. \<open>readable_thread\<close> holds of the value of the event's
  \<^verbatim>\<open>message\<close> member when the thread name can be read from it: the value is false,
  or an object whose \<^verbatim>\<open>thread\<close> member is missing or an object.
\<close>

definition field :: "(string \<times> json) list \<Rightarrow> string \<Rightarrow> json" where
  "field kvs key = (case map_of kvs key of Some v \<Rightarrow> v | None \<Rightarrow> JNull)"

fun chat_without_payload :: "json \<Rightarrow> bool" where
  "chat_without_payload (JObj ckvs) =
     (\<not> truthy (field ckvs ''appCommandPayload'') \<and> \<not> truthy (field ckvs ''messagePayload''))"
| "chat_without_payload c = (\<not> truthy c)"

fun readable_thread :: "json \<Rightarrow> bool" where
  "readable_thread (JObj mkvs) =
     (case map_of mkvs ''thread'' of None \<Rightarrow> True | Some (JObj tkvs) \<Rightarrow> True | Some v \<Rightarrow> False)"
| "readable_thread m = (\<not> truthy m)"

text \<open>
  The routes of \<open>chat_endpoint\<close>, named: a route either answers with a static text
  or hands a text and the value of the variable \<^verbatim>\<open>thread_name\<close> to the pipeline.
  \<open>route\<close> follows the tests of \<open>chat_endpoint\<close> one by one and stops where the
  response would be built; \<open>payload_route\<close> does so for the two payload handlers. The
  thread name is read from the message of the payload on the first two routes, from the
  message of the event on the third.
\<close>

datatype route = Static string | Pipeline string json

definition payload_route :: "json \<Rightarrow> string \<Rightarrow> string \<Rightarrow> py_exception + route" where
  "payload_route event key usage =
     bind (item event ''chat'') (\<lambda>chat.
     bind (item chat key) (\<lambda>payload.
     bind (get payload ''message'' (JObj [])) (\<lambda>message.
     bind (get message ''argumentText'' (JStr [])) (\<lambda>argument.
     bind (strip_method argument) (\<lambda>text.
     bind (get message ''thread'' (JObj [])) (\<lambda>thread.
     bind (get thread ''name'' JNull) (\<lambda>thread_name.
       Inr (if text = [] then Static usage else Pipeline text thread_name))))))))"

definition route :: "json \<Rightarrow> py_exception + route" where
  "route event =
     bind (chat_payload event ''appCommandPayload'') (\<lambda>slash.
       if truthy slash then payload_route event ''appCommandPayload'' usage_ask
       else
     bind (chat_payload event ''messagePayload'') (\<lambda>mention.
       if truthy mention then payload_route event ''messagePayload'' usage_mention
       else
     bind (event_thread_name event) (\<lambda>thread_name.
     bind (get event ''type'' JNull) (\<lambda>etype.
       if etype = JStr ''ADDED_TO_SPACE'' then Inr (Static greeting)
       else if etype = JStr ''MESSAGE'' then
         bind (event_text event) (\<lambda>text.
           Inr (if text = [] then Static usage_ask else Pipeline text thread_name))
       else Inr (Static default_text)))))"

section \<open>Alert notification\<close>

text \<open>
  The notification holds characters beyond code point 255, so it is a list of code
  points; \<open>code_points\<close> embeds a text of the model. \<^verbatim>\<open>str.upper()\<close> leaves the range
  at three characters: the sharp s becomes two letters, and the micro sign and the y with
  diaeresis have capitals above 255; it too yields code points.
\<close>

definition code_points :: "string \<Rightarrow> nat list" where
  "code_points s = map of_char s"

definition upper_char :: "char \<Rightarrow> nat list" where
  "upper_char c =
     (let n = (of_char c :: nat)
      in if (97 \<le> n \<and> n \<le> 122) \<or> (224 \<le> n \<and> n \<le> 254 \<and> n \<noteq> 247) then [n - 32]
         else if n = 223 then [83, 83]
         else if n = 181 then [924]
         else if n = 255 then [376]
         else [n])"

definition upper :: "string \<Rightarrow> nat list" where
  "upper s = concat (map upper_char s)"

text \<open>
  The model class \<^verbatim>\<open>ErrorAlert\<close>. Its fields carry the prefix \<open>alert_\<close>, the names
  \<open>service\<close> and \<open>message\<close> being variables of the functions above.
\<close>

record 'log ErrorAlert =
  alert_service :: string
  alert_error_type :: string
  alert_message :: string
  alert_timestamp :: "string option"
  alert_stack_trace :: "string option"
  alert_affected_users :: "int option"
  alert_severity :: string
  alert_recent_logs :: "'log list option"
  alert_environment :: string

text \<open>
  The dictionary of severity glyphs and its lookup with a default:
  U+1F7E1 yellow circle, U+1F7E0 orange circle, U+1F534 red circle, U+1F6A8 rotating
  light; U+26AA white circle otherwise.
\<close>

definition severity_glyphs :: "(nat list \<times> nat list) list" where
  "severity_glyphs =
     [(code_points ''LOW'', [0x1F7E1]),
      (code_points ''MEDIUM'', [0x1F7E0]),
      (code_points ''HIGH'', [0x1F534]),
      (code_points ''CRITICAL'', [0x1F6A8])]"

definition severity_emoji :: "string \<Rightarrow> nat list" where
  "severity_emoji severity =
     (case map_of severity_glyphs (upper severity) of Some g \<Rightarrow> g | None \<Rightarrow> [0x26AA])"

text \<open>
  The first text of the message, lines 104 to 111: the glyph, the title and one line
  for each of six fields.
\<close>

definition notification_head :: "nat list \<Rightarrow> 'log ErrorAlert \<Rightarrow> string \<Rightarrow> nat list" where
  "notification_head glyph alert timestamp =
     glyph @ code_points '' **Production Error Alert**'' @
     code_points (
       nl @ nl @
       ''**Service:** '' @ alert_service alert @ nl @
       ''**Error:** '' @ alert_error_type alert @ nl @
       ''**Message:** '' @ alert_message alert @ nl @
       ''**Severity:** '' @ alert_severity alert @ nl @
       ''**Time:** '' @ timestamp @ nl @
       ''**Environment:** '' @ alert_environment alert)"

text \<open>
  \<^verbatim>\<open>format_error_notification(alert)\<close>; \<open>now\<close> is
  \<^verbatim>\<open>datetime.now(timezone.utc).isoformat()\<close>, used when the alert has no time stamp.
  U+1F4AC is the speech balloon of the last line.
\<close>

definition format_error_notification :: "string \<Rightarrow> 'log ErrorAlert \<Rightarrow> nat list" where
  "format_error_notification now alert =
     (let timestamp =
            (case alert_timestamp alert of Some t \<Rightarrow> if t \<noteq> [] then t else now | None \<Rightarrow> now);
          message = notification_head (severity_emoji (alert_severity alert)) alert timestamp;
          message =
            (case alert_affected_users alert of
               Some n \<Rightarrow> if n \<noteq> 0
                         then message @ code_points (nl @ ''**Affected Users:** ~'' @ str_int n)
                         else message
             | None \<Rightarrow> message);
          message =
            (case alert_stack_trace alert of
               Some st \<Rightarrow>
                 if st \<noteq> [] then
                   (let truncated_trace = (if length st > 200 then take 200 st @ ''...'' else st)
                    in message @ code_points (nl @ ''**Stack Trace:** ```'' @ truncated_trace @ ''```''))
                 else message
             | None \<Rightarrow> message);
          message =
            (case alert_recent_logs alert of
               Some logs \<Rightarrow>
                 if logs \<noteq> []
                 then message @ code_points
                        (nl @ ''**Recent Logs:** '' @ str_nat (length logs) @ '' entries available'')
                 else message
             | None \<Rightarrow> message)
      in message @ code_points (nl @ nl) @ [0x1F4AC] @
         code_points '' *Type `/ask <question>` to investigate this error*'')"

section \<open>Sample configuration and collaborators\<close>

text \<open>
  Concrete values for the instances below. \<open>default_config\<close> holds the defaults that
  the module gives its constants when the environment sets none: no project.
  \<open>demo_config\<close> names a project. \<open>QueryJobConfig\<close> is the constructor as
  google-cloud-bigquery has it: the setter of \<^verbatim>\<open>query_parameters\<close> iterates over its
  value, so \<^verbatim>\<open>None\<close> raises TypeError and a list is taken as it is. The other
  collaborators of \<open>echo\<close> succeed: the store answers every query with one row that
  records the SQL text and the parameters it was given, the clock gives a fixed time
  stamp, the language model answers with its prompt, and rows are serialised as their
  number. In \<open>offline\<close> there is no language model and
  the store refuses every query. In \<open>broken\<close> the language model answers without a
  candidate.
\<close>

definition default_config :: config where
  "default_config =
     \<lparr>PROJECT = None, BQ_DATASET = ''chat_alert_test'', BQ_TABLE = ''alerts'',
      ASK_DEFAULT_SINCE_DAYS = 7, ASK_MAX_ROWS = 200,
      ASK_TS_COLUMN = ''ts'', ASK_SERVICE_COLUMN = ''service''\<rparr>"

definition demo_config :: config where
  "demo_config = default_config\<lparr>PROJECT := Some ''demo''\<rparr>"

definition QueryJobConfig ::
  "(string \<times> string \<times> string) list option \<Rightarrow> py_exception + (string \<times> string \<times> string) list" where
  "QueryJobConfig query_parameters =
     (case query_parameters of
        None \<Rightarrow> Inl (TypeError ''NoneType object is not iterable'')
      | Some parameters \<Rightarrow> Inr parameters)"

type_synonym issued = "string \<times> (string \<times> string \<times> string) list"

definition echo :: "issued collaborators" where
  "echo =
     \<lparr>bq_Client = (\<lambda>project. Inr ()),
      bq_QueryJobConfig = QueryJobConfig,
      bq_query = (\<lambda>sql job_config. Inr [(sql, job_config)]),
      start_ts_iso = (\<lambda>since_days. Inr ''2026-01-01T00:00:00+00:00''),
      gen = Some (\<lambda>prompt. Inr [[prompt]]),
      json_dumps = (\<lambda>rows. str_nat (length rows) @ '' rows'')\<rparr>"

definition offline :: "issued collaborators" where
  "offline =
     echo\<lparr>bq_query := (\<lambda>sql job_config. Inl (Failure ''query refused'')), gen := None\<rparr>"

definition broken :: "issued collaborators" where
  "broken = echo\<lparr>gen := Some (\<lambda>prompt. Inr [])\<rparr>"

text \<open>
  Two events of the original format: \<open>space_event\<close> tells that the bot was added to a
  space and carries other members besides its type; \<open>threaded_message\<close> is a message in
  a thread.
\<close>

definition space_event :: "(string \<times> json) list" where
  "space_event =
     [(''type'', JStr ''ADDED_TO_SPACE''),
      (''space'', JObj [(''name'', JStr ''spaces/A'')]),
      (''message'', JObj [(''thread'', JObj [(''name'', JStr ''spaces/A/threads/B'')])])]"

definition threaded_message :: json where
  "threaded_message =
     JObj [(''type'', JStr ''MESSAGE''),
           (''message'', JObj [(''text'', JStr ''ping''),
                               (''thread'', JObj [(''name'', JStr ''spaces/A/threads/B'')])])]"

section \<open>Properties of the filter parser\<close>

subsection \<open>The loop over the tokens\<close>

text \<open>
  A token recognised as a filter by its lower-case form has a colon of its own, since
  no other character becomes a colon in lower case: the indexing after
  \<^verbatim>\<open>split(":", 1)\<close> is in range.
\<close>

lemma lower_char_colon: "lower_char c = CHR '':'' \<Longrightarrow> c = CHR '':''"
proof (rule ccontr)
  assume eq: "lower_char c = CHR '':''" and ne: "c \<noteq> CHR '':''"
  define n where "n = (of_char c :: nat)"
  from eq ne have up: "(65 \<le> n \<and> n \<le> 90) \<or> (192 \<le> n \<and> n \<le> 222 \<and> n \<noteq> 215)"
    and "char_of (n + 32) = CHR '':''"
    by (auto simp: lower_char_def Let_def n_def split: if_splits)
  then have "(of_char (char_of (n + 32) :: char) :: nat) = of_char CHR '':''"
    by simp
  then have "(n + 32) mod 256 = 58"
    by simp
  with up show False
    by auto
qed

lemma startswith_lower_colon:
  assumes "startswith (lower token) p" and "CHR '':'' \<in> set p"
  shows "CHR '':'' \<in> set token"
proof -
  from assms have "CHR '':'' \<in> set (take (length p) (lower token))"
    by (simp add: startswith_def)
  then have "CHR '':'' \<in> set (lower token)"
    by (rule in_set_takeD)
  then obtain c where "c \<in> set token" and "lower_char c = CHR '':''"
    by (auto simp: lower_def)
  then show ?thesis
    by (auto dest: lower_char_colon)
qed

lemma index_split1_colon:
  "CHR '':'' \<in> set token \<Longrightarrow>
   index (split1 CHR '':'' token) (Suc 0) = Inr (tl (dropWhile (\<lambda>c. c \<noteq> CHR '':'') token))"
  by (simp add: index_def split1_def)

lemma py_int_raises: "py_int v = Inl e \<Longrightarrow> is_ValueError e"
  by (auto simp: py_int_def Let_def split: prod.splits option.splits)

lemma parse_tokens_total:
  "\<exists>service' since_days' . 
     parse_tokens tokens service since_days parts
       = Inr (service', since_days', parts @ filter (\<lambda>t. \<not> is_filter t) tokens)
     \<and> (1 \<le> since_days \<longrightarrow> 1 \<le> since_days')
     \<and> (1 \<le> since_days' \<or> since_days' = since_days)"
proof (induction tokens arbitrary: service since_days parts)
  case Nil
  show ?case by simp
next
  case (Cons token tokens)
  show ?case
  proof (cases "startswith (lower token) ''service:''")
    case True
    then have "CHR '':'' \<in> set token"
      by (rule startswith_lower_colon) simp
    with True Cons.IH [of "Some (tl (dropWhile (\<lambda>c. c \<noteq> CHR '':'') token))" since_days parts]
    show ?thesis
      by (simp add: index_split1_colon is_filter_def)
  next
    case False
    show ?thesis
    proof (cases "startswith (lower token) ''since:''")
      case since: True
      then have colon: "CHR '':'' \<in> set token"
        by (rule startswith_lower_colon) simp
      let ?v = "tl (dropWhile (\<lambda>c. c \<noteq> CHR '':'') token)"
      show ?thesis
      proof (cases "py_int ?v")
        case (Inl e)
        then have "is_ValueError e"
          by (rule py_int_raises)
        with False since colon Inl Cons.IH [of service since_days parts]
        show ?thesis
          by (simp add: index_split1_colon is_filter_def)
      next
        case (Inr n)
        from Cons.IH [of service "max 1 n" parts]
        obtain service' since_days' where
          "parse_tokens tokens service (max 1 n) parts
             = Inr (service', since_days', parts @ filter (\<lambda>t. \<not> is_filter t) tokens)"
          and "1 \<le> since_days'"
          by auto
        with False since colon Inr show ?thesis
          by (simp add: index_split1_colon is_filter_def)
      qed
    next
      case keep: False
      with False Cons.IH [of service since_days "parts @ [token]"]
      show ?thesis
        by (simp add: is_filter_def)
    qed
  qed
qed

lemma parse_tokens_keep:
  "list_all (\<lambda>t. \<not> is_filter t) tokens \<Longrightarrow>
   parse_tokens tokens service since_days parts = Inr (service, since_days, parts @ tokens)"
  by (induction tokens arbitrary: parts) (simp_all add: is_filter_def)

subsection \<open>Splitting and joining\<close>

lemma split_Nil: "split [] = []"
  by (simp add: split.simps)

lemma split_space: "is_space c \<Longrightarrow> split (c # s) = split s"
  by (simp add: split.simps [of "c # s"] split.simps [of s])

lemma split_token:
  assumes ne: "t \<noteq> []" and ns: "\<forall>c \<in> set t. \<not> is_space c"
    and r: "r = [] \<or> is_space (hd r)"
  shows "split (t @ r) = t # split r"
proof -
  from ne ns have hd: "\<not> is_space (hd t)"
    by (cases t) simp_all
  with ne have d: "dropWhile is_space (t @ r) = t @ r"
    by (cases t) simp_all
  from r have tw: "takeWhile (\<lambda>c. \<not> is_space c) r = []" and dw: "dropWhile (\<lambda>c. \<not> is_space c) r = r"
    by (cases r; auto)+
  from ns have "takeWhile (\<lambda>c. \<not> is_space c) (t @ r) = t"
    by (simp add: takeWhile_append2 tw)
  moreover from ns have "dropWhile (\<lambda>c. \<not> is_space c) (t @ r) = r"
    by (simp add: dropWhile_append2 dw)
  ultimately show ?thesis
    using ne by (simp add: split.simps [of "t @ r"] d)
qed

lemma split_is_token: "list_all is_token (split s)"
proof (induction s rule: split.induct)
  case (1 s)
  define s' where "s' = dropWhile is_space s"
  show ?case
  proof (cases "s' = []")
    case True
    then show ?thesis
      by (simp add: split.simps [of s] s'_def)
  next
    case False
    then have "\<not> is_space (hd s')"
      unfolding s'_def by (rule hd_dropWhile)
    with False have "takeWhile (\<lambda>c. \<not> is_space c) s' \<noteq> []"
      by (cases s') simp_all
    moreover have "list_all (\<lambda>c. \<not> is_space c) (takeWhile (\<lambda>c. \<not> is_space c) s')"
      by (auto simp: list_all_iff dest: set_takeWhileD)
    ultimately have "is_token (takeWhile (\<lambda>c. \<not> is_space c) s')"
      by (simp add: is_token_def)
    moreover from False "1.IH" [of s']
    have "list_all is_token (split (dropWhile (\<lambda>c. \<not> is_space c) s'))"
      by (simp add: s'_def)
    ultimately show ?thesis
      using False by (simp add: split.simps [of s] s'_def [symmetric])
  qed
qed

lemma join_tokens_ends:
  assumes "list_all is_token ps" and "ps \<noteq> []"
  shows "join '' '' ps \<noteq> [] \<and> hd (join '' '' ps) = hd (hd ps)
         \<and> last (join '' '' ps) = last (last ps)"
  using assms
  by (induction "'' ''" ps rule: join.induct) (auto simp: is_token_def)

lemma split_join:
  assumes "list_all is_token ps"
  shows "split (join '' '' ps) = ps"
  using assms
proof (induction "'' ''" ps rule: join.induct)
  case 1
  show ?case by (simp add: split_Nil)
next
  case (2 x)
  then have "split (x @ []) = x # split []"
    by (intro split_token) (auto simp: is_token_def list_all_iff)
  then show ?case
    by (simp add: split_Nil)
next
  case (3 x y ys)
  then have "split (x @ ('' '' @ join '' '' (y # ys))) = x # split ('' '' @ join '' '' (y # ys))"
    by (intro split_token) (auto simp: is_token_def list_all_iff is_space_def)
  also have "split ('' '' @ join '' '' (y # ys)) = split (join '' '' (y # ys))"
    by (simp add: split_space is_space_def)
  also from 3 have "\<dots> = y # ys"
    by simp
  finally show ?case
    by simp
qed

lemma strip_id:
  assumes "s = [] \<or> (\<not> is_space (hd s) \<and> \<not> is_space (last s))"
  shows "strip s = s"
proof (cases s)
  case Nil
  then show ?thesis by (simp add: strip_def)
next
  case (Cons c cs)
  with assms have h: "\<not> is_space (hd s)" and l: "\<not> is_space (last s)" and ne: "s \<noteq> []"
    by auto
  from h ne have "dropWhile is_space s = s"
    by (cases s) simp_all
  moreover from l ne have "dropWhile is_space (rev s) = rev s"
    by (cases "rev s") (simp_all add: last_rev [symmetric] hd_rev)
  ultimately show ?thesis
    by (simp add: strip_def)
qed

lemma strip_join:
  assumes "list_all is_token ps"
  shows "strip (join '' '' ps) = join '' '' ps"
proof (cases ps)
  case Nil
  then show ?thesis by (simp add: strip_def)
next
  case (Cons p ps')
  with assms have tok: "is_token (hd ps)" "is_token (last ps)"
    by (auto simp: list_all_iff)
  from tok have "\<not> is_space (hd (hd ps))" "\<not> is_space (last (last ps))"
    by (auto simp: is_token_def list_all_iff)
  with join_tokens_ends [OF assms] Cons show ?thesis
    by (intro strip_id) simp
qed

subsection \<open>The parser returns\<close>

lemma parse_returns:
  "\<exists>question service since_days.
     parse_prompt_and_filters d text = Inr (question, service, since_days)"
proof -
  from parse_tokens_total [of "split text" None d "[]"]
  obtain service since_days where
    "parse_tokens (split text) None d []
       = Inr (service, since_days, filter (\<lambda>t. \<not> is_filter t) (split text))"
    by auto
  then show ?thesis
    by (simp add: parse_prompt_and_filters_def)
qed

subsection \<open>The claims on the parser\<close>

text \<open>
  Claim C1, as amended. For every text and every default lookback, the parser returns:
  no exception leaves it, the question is a text, the service is absent or a text, and
  the lookback is at least 1 or is the default itself; so it is at least 1 whenever the
  default is. The default is returned unclamped when no valid \<open>since:\<close> token is read.
\<close>

theorem parse_total:
  "\<exists>question service since_days.
     parse_prompt_and_filters default_since_days text = Inr (question, service, since_days)
     \<and> (1 \<le> since_days \<or> since_days = default_since_days)
     \<and> (1 \<le> default_since_days \<longrightarrow> 1 \<le> since_days)"
proof -
  from parse_tokens_total [of "split text" None default_since_days "[]"]
  obtain service since_days where
    "parse_tokens (split text) None default_since_days []
       = Inr (service, since_days, filter (\<lambda>t. \<not> is_filter t) (split text))"
    and "1 \<le> default_since_days \<longrightarrow> 1 \<le> since_days"
    and "1 \<le> since_days \<or> since_days = default_since_days"
    by auto
  then show ?thesis
    by (simp add: parse_prompt_and_filters_def)
qed

theorem parse_total_witness:
  "1 \<le> (7::int) \<and>
   (\<exists>question service since_days.
      parse_prompt_and_filters 7 ''since:0 ping'' = Inr (question, service, since_days)
      \<and> 1 \<le> since_days)"
  using parse_total [of 7 "''since:0 ping''"] by auto

text \<open>
  Claim C1 as it is written fails for a default below 1: with the default 0 and a text
  without filters the lookback returned is 0.
\<close>

theorem parse_default_unclamped:
  "parse_prompt_and_filters 0 ''ping'' = Inr (''ping'', None, 0)"
  by code_simp

text \<open>
  Claim C2. The three worked examples, with the default 7: a service and a lookback are
  read and removed from the question; an empty service is the empty text, not absent,
  and a lookback that is no number leaves the default; a lookback of 0 is raised to 1.
\<close>

theorem parse_examples:
  "parse_prompt_and_filters 7 ''why fail? service:auth since:3'' = Inr (''why fail?'', Some ''auth'', 3)
   \<and> parse_prompt_and_filters 7 ''service: since:abc test'' = Inr (''test'', Some [], 7)
   \<and> parse_prompt_and_filters 7 ''since:0 ping'' = Inr (''ping'', None, 1)"
  by code_simp

text \<open>
  Claim C9. Parsing is idempotent on its question: when a text parses to the question
  \<open>q\<close>, parsing \<open>q\<close> with the same default gives \<open>q\<close> again, no service, and the
  default lookback.
\<close>

theorem parse_idempotent:
  assumes "parse_prompt_and_filters default_since_days text = Inr (q, service, since_days)"
  shows "parse_prompt_and_filters default_since_days q = Inr (q, None, default_since_days)"
proof -
  let ?ps = "filter (\<lambda>t. \<not> is_filter t) (split text)"
  from parse_tokens_total [of "split text" None default_since_days "[]"] assms
  have "q = strip (join '' '' ?ps)"
    by (auto simp: parse_prompt_and_filters_def)
  moreover have tokens: "list_all is_token ?ps"
    using split_is_token [of "text"] by (simp add: list_all_iff)
  ultimately have q: "q = join '' '' ?ps"
    by (simp add: strip_join)
  from tokens have "split q = ?ps"
    unfolding q by (rule split_join)
  moreover have "list_all (\<lambda>t. \<not> is_filter t) ?ps"
    by (simp add: list_all_iff)
  then have "parse_tokens ?ps None default_since_days [] = Inr (None, default_since_days, ?ps)"
    using parse_tokens_keep [of "?ps" None default_since_days "[]"] by simp
  ultimately show ?thesis
    using tokens by (simp add: parse_prompt_and_filters_def strip_join q)
qed

theorem parse_idempotent_witness:
  "parse_prompt_and_filters 7 ''why fail? service:auth since:3'' = Inr (''why fail?'', Some ''auth'', 3)
   \<and> parse_prompt_and_filters 7 ''why fail?'' = Inr (''why fail?'', None, 7)"
proof -
  have h: "parse_prompt_and_filters 7 ''why fail? service:auth since:3'' = Inr (''why fail?'', Some ''auth'', 3)"
    by code_simp
  from h parse_idempotent [OF h] show ?thesis
    by simp
qed

section \<open>Properties of the context fetcher\<close>

lemma bind_Inr: "bind (Inr x) f = f x"
  by (simp add: bind_def)

lemma bind_Inl: "bind (Inl e) f = Inl e"
  by (simp add: bind_def)

lemma bind_eq_Inr: "bind m f = Inr y \<longleftrightarrow> (\<exists>x. m = Inr x \<and> f x = Inr y)"
  by (cases m) (simp_all add: bind_def)

text \<open>
  The condition on the time stamp ends with a quote and a bracket, the condition on the
  service with a letter and a bracket: they are never the same text.
\<close>

lemma conditions_differ: "ts_condition cfg start_ts \<noteq> service_condition cfg"
proof
  assume "ts_condition cfg start_ts = service_condition cfg"
  then have "rev (ts_condition cfg start_ts) = rev (service_condition cfg)"
    by simp
  then show False
    by (simp add: ts_condition_def service_condition_def)
qed

text \<open>The SQL text, written out: the service condition is there or not, nothing else changes.\<close>

lemma fetch_sql_text:
  "fetch_sql cfg project service start_ts =
     [CHR 0x0A] @ ''            SELECT *'' @
     [CHR 0x0A] @ ''            FROM `'' @ project @ ''.'' @ BQ_DATASET cfg @ ''.'' @ BQ_TABLE cfg @ ''`'' @
     [CHR 0x0A] @ ''            WHERE '' @ ASK_TS_COLUMN cfg @ '' >= TIMESTAMP('' @ [CHR 0x27] @ start_ts @ [CHR 0x27] @ '')'' @
       (if \<exists>s. service = Some s \<and> s \<noteq> []
        then '' AND LOWER('' @ ASK_SERVICE_COLUMN cfg @ '') = LOWER(@service)'' else []) @
     [CHR 0x0A] @ ''            ORDER BY '' @ ASK_TS_COLUMN cfg @ '' DESC'' @
     [CHR 0x0A] @ ''            LIMIT '' @ str_int (ASK_MAX_ROWS cfg) @
     [CHR 0x0A] @ ''        ''"
proof -
  have truthy: "truthy_str service \<longleftrightarrow> (\<exists>s. service = Some s \<and> s \<noteq> [])"
    by (cases service) simp_all
  show ?thesis
    by (simp add: fetch_sql_def fetch_where_def ts_condition_def service_condition_def nl_def
          truthy [symmetric])
qed

text \<open>
  Claim C3, as amended. The SQL text that the fetch builds asks for the service,
  case-insensitively, exactly when the service filter is present and not the empty text:
  then, and only then, \<^verbatim>\<open>AND LOWER(column) = LOWER(@service)\<close> follows the condition
  on the time stamp, and the filter is the one query parameter, named \<^verbatim>\<open>service\<close>.
  For the empty text, as for an absent filter, the text has the condition on the time
  stamp alone and there is no parameter. When the filter is present and not empty, and
  the project, the client, the start time and the job configuration are there, the rows
  returned are those of the query with this text and this configuration.
\<close>

theorem fetch_service_condition:
  "fetch_sql cfg project service start_ts =
     [CHR 0x0A] @ ''            SELECT *'' @
     [CHR 0x0A] @ ''            FROM `'' @ project @ ''.'' @ BQ_DATASET cfg @ ''.'' @ BQ_TABLE cfg @ ''`'' @
     [CHR 0x0A] @ ''            WHERE '' @ ASK_TS_COLUMN cfg @ '' >= TIMESTAMP('' @ [CHR 0x27] @ start_ts @ [CHR 0x27] @ '')'' @
       (if \<exists>s. service = Some s \<and> s \<noteq> []
        then '' AND LOWER('' @ ASK_SERVICE_COLUMN cfg @ '') = LOWER(@service)'' else []) @
     [CHR 0x0A] @ ''            ORDER BY '' @ ASK_TS_COLUMN cfg @ '' DESC'' @
     [CHR 0x0A] @ ''            LIMIT '' @ str_int (ASK_MAX_ROWS cfg) @
     [CHR 0x0A] @ ''        ''
   \<and> (service_condition cfg \<in> set (fetch_where cfg service start_ts)
        \<longleftrightarrow> (\<exists>s. service = Some s \<and> s \<noteq> []))
   \<and> fetch_parameters service =
        (case service of
           Some s \<Rightarrow> if s \<noteq> [] then Some [(''service'', ''STRING'', s)] else None
         | None \<Rightarrow> None)
   \<and> (PROJECT cfg = Some project \<and> project \<noteq> []
        \<and> bq_Client co project = Inr client
        \<and> start_ts_iso co since_days = Inr start_ts
        \<and> service = Some name \<and> name \<noteq> []
        \<and> bq_QueryJobConfig co (Some [(''service'', ''STRING'', name)]) = Inr job_config
        \<longrightarrow> fetch_logs cfg co service since_days =
              (case bq_query co (fetch_sql cfg project service start_ts) job_config of
                 Inl e \<Rightarrow> [] | Inr out \<Rightarrow> out))"
proof -
  have truthy: "truthy_str service \<longleftrightarrow> (\<exists>s. service = Some s \<and> s \<noteq> [])"
    by (cases service) simp_all
  have "service_condition cfg \<in> set (fetch_where cfg service start_ts)
              \<longleftrightarrow> (\<exists>s. service = Some s \<and> s \<noteq> [])"
    using conditions_differ [of cfg start_ts]
    by (auto simp: fetch_where_def truthy [symmetric])
  moreover have "fetch_parameters service =
             (case service of
                Some s \<Rightarrow> if s \<noteq> [] then Some [(''service'', ''STRING'', s)] else None
              | None \<Rightarrow> None)"
    by (simp add: fetch_parameters_def)
  moreover have "PROJECT cfg = Some project \<and> project \<noteq> []
        \<and> bq_Client co project = Inr client
        \<and> start_ts_iso co since_days = Inr start_ts
        \<and> service = Some name \<and> name \<noteq> []
        \<and> bq_QueryJobConfig co (Some [(''service'', ''STRING'', name)]) = Inr job_config
        \<longrightarrow> fetch_logs cfg co service since_days =
              (case bq_query co (fetch_sql cfg project service start_ts) job_config of
                 Inl e \<Rightarrow> [] | Inr out \<Rightarrow> out)"
    by (simp add: fetch_logs_def fetch_logs_try_def fetch_parameters_def bind_Inr)
  ultimately show ?thesis
    using fetch_sql_text [of cfg project service start_ts] by blast
qed

theorem fetch_service_condition_witness:
  "PROJECT demo_config = Some ''demo''
   \<and> bq_Client echo ''demo'' = Inr ()
   \<and> start_ts_iso echo 7 = Inr ''2026-01-01T00:00:00+00:00''
   \<and> bq_QueryJobConfig echo (Some [(''service'', ''STRING'', ''Auth'')])
        = Inr [(''service'', ''STRING'', ''Auth'')]
   \<and> fetch_logs demo_config echo (Some ''Auth'') 7 =
        [([CHR 0x0A] @ ''            SELECT *'' @
          [CHR 0x0A] @ ''            FROM `demo.chat_alert_test.alerts`'' @
          [CHR 0x0A] @ ''            WHERE ts >= TIMESTAMP('' @ [CHR 0x27] @ ''2026-01-01T00:00:00+00:00'' @ [CHR 0x27] @ '') AND LOWER(service) = LOWER(@service)'' @
          [CHR 0x0A] @ ''            ORDER BY ts DESC'' @
          [CHR 0x0A] @ ''            LIMIT 200'' @
          [CHR 0x0A] @ ''        '',
          [(''service'', ''STRING'', ''Auth'')])]"
proof -
  have p: "PROJECT demo_config = Some ''demo''"
    by (simp add: demo_config_def default_config_def)
  have c: "bq_Client echo ''demo'' = Inr ()"
    by (simp add: echo_def)
  have t: "start_ts_iso echo 7 = Inr ''2026-01-01T00:00:00+00:00''"
    by (simp add: echo_def)
  have j: "bq_QueryJobConfig echo (Some [(''service'', ''STRING'', ''Auth'')])
        = Inr [(''service'', ''STRING'', ''Auth'')]"
    by (simp add: echo_def QueryJobConfig_def)
  have q: "bq_query echo sql job_config = Inr [(sql, job_config)]" for sql job_config
    by (simp add: echo_def)
  have l: "str_int 200 = ''200''"
    by code_simp
  have cols: "BQ_DATASET demo_config = ''chat_alert_test''" "BQ_TABLE demo_config = ''alerts''"
    "ASK_TS_COLUMN demo_config = ''ts''" "ASK_SERVICE_COLUMN demo_config = ''service''"
    "ASK_MAX_ROWS demo_config = 200"
    by (simp_all add: demo_config_def default_config_def)
  from fetch_service_condition [where cfg = demo_config and project = "''demo''" and co = echo
      and client = "()" and since_days = 7 and start_ts = "''2026-01-01T00:00:00+00:00''"
      and service = "Some ''Auth''" and name = "''Auth''"
      and job_config = "[(''service'', ''STRING'', ''Auth'')]"]
    p c t j
  have "fetch_logs demo_config echo (Some ''Auth'') 7 =
          [(fetch_sql demo_config ''demo'' (Some ''Auth'') ''2026-01-01T00:00:00+00:00'',
            [(''service'', ''STRING'', ''Auth'')])]"
    by (simp add: q)
  then have "fetch_logs demo_config echo (Some ''Auth'') 7 =
        [([CHR 0x0A] @ ''            SELECT *'' @
          [CHR 0x0A] @ ''            FROM `demo.chat_alert_test.alerts`'' @
          [CHR 0x0A] @ ''            WHERE ts >= TIMESTAMP('' @ [CHR 0x27] @ ''2026-01-01T00:00:00+00:00'' @ [CHR 0x27] @ '') AND LOWER(service) = LOWER(@service)'' @
          [CHR 0x0A] @ ''            ORDER BY ts DESC'' @
          [CHR 0x0A] @ ''            LIMIT 200'' @
          [CHR 0x0A] @ ''        '',
          [(''service'', ''STRING'', ''Auth'')])]"
    by (simp add: fetch_sql_text cols l)
  with p c t j show ?thesis
    by simp
qed

text \<open>
  Claim C3 as it is written fails for the empty service filter: the test
  \<^verbatim>\<open>if service:\<close> is false for the empty text. The SQL text built for it has the
  condition on the time stamp alone, there is no parameter, and text and parameters are
  those of an absent filter; with the library as it is, no query with a condition on the
  service reaches the store, since none reaches it at all.
\<close>

theorem fetch_empty_service_unfiltered:
  "fetch_sql demo_config ''demo'' (Some []) ''2026-01-01T00:00:00+00:00'' =
     [CHR 0x0A] @ ''            SELECT *'' @
     [CHR 0x0A] @ ''            FROM `demo.chat_alert_test.alerts`'' @
     [CHR 0x0A] @ ''            WHERE ts >= TIMESTAMP('' @ [CHR 0x27] @ ''2026-01-01T00:00:00+00:00'' @ [CHR 0x27] @ '')'' @
     [CHR 0x0A] @ ''            ORDER BY ts DESC'' @
     [CHR 0x0A] @ ''            LIMIT 200'' @
     [CHR 0x0A] @ ''        ''
   \<and> fetch_sql demo_config ''demo'' (Some []) ''2026-01-01T00:00:00+00:00''
       = fetch_sql demo_config ''demo'' None ''2026-01-01T00:00:00+00:00''
   \<and> fetch_parameters (Some []) = None
   \<and> fetch_logs demo_config echo (Some []) 7 = []"
  by code_simp

text \<open>
  What the fetch does without a filter. The job configuration is built from
  \<^verbatim>\<open>query_parameters=None\<close> for an absent filter and for the empty text; when the
  library refuses that value, as it does, the exception is caught and the fetch returns
  nothing, whatever the store holds. The docstring of \<^verbatim>\<open>fetch_logs\<close> calls the
  service column optional.
\<close>

lemma fetch_logs_without_filter:
  assumes "bq_QueryJobConfig co None = Inl e"
  shows "fetch_logs cfg co None since_days = []"
    and "fetch_logs cfg co (Some []) since_days = []"
  using assms
  by (auto simp: fetch_logs_def fetch_logs_try_def fetch_parameters_def bind_def
        split: option.splits sum.splits)

text \<open>
  Claim C4. Whatever the service filter and the lookback, the fetch returns the empty
  list when no project is configured (the constant is unset or empty), and when the
  client constructor, the computation of the start time, the job configuration or the
  query raises. The result of \<open>fetch_logs\<close> is a list in every case: the function has no
  exit by exception, all its calls to collaborators being inside its \<^verbatim>\<open>try\<close>.
\<close>

theorem fetch_logs_degrades:
  assumes "PROJECT cfg = None \<or> PROJECT cfg = Some []
           \<or> (\<exists>project e. PROJECT cfg = Some project
                 \<and> (bq_Client co project = Inl e
                     \<or> start_ts_iso co since_days = Inl e
                     \<or> bq_QueryJobConfig co (fetch_parameters service) = Inl e
                     \<or> (\<exists>start_ts job_config. start_ts_iso co since_days = Inr start_ts
                           \<and> bq_QueryJobConfig co (fetch_parameters service) = Inr job_config
                           \<and> bq_query co (fetch_sql cfg project service start_ts) job_config = Inl e)))"
  shows "fetch_logs cfg co service since_days = []"
  using assms
  by (auto simp: fetch_logs_def fetch_logs_try_def bind_def split: option.splits sum.splits)

theorem fetch_logs_degrades_witness:
  "PROJECT demo_config = Some ''demo''
   \<and> bq_query offline (fetch_sql demo_config ''demo'' (Some ''auth'') ''2026-01-01T00:00:00+00:00'')
        [(''service'', ''STRING'', ''auth'')] = Inl (Failure ''query refused'')
   \<and> fetch_logs demo_config offline (Some ''auth'') 3 = []
   \<and> PROJECT default_config = None
   \<and> fetch_logs default_config echo (Some ''auth'') 3 = []"
proof -
  have p: "PROJECT demo_config = Some ''demo''"
    by (simp add: demo_config_def default_config_def)
  have t: "start_ts_iso offline 3 = Inr ''2026-01-01T00:00:00+00:00''"
    by (simp add: offline_def echo_def)
  have j: "bq_QueryJobConfig offline (fetch_parameters (Some ''auth''))
             = Inr [(''service'', ''STRING'', ''auth'')]"
    by (simp add: offline_def echo_def QueryJobConfig_def fetch_parameters_def)
  have q: "bq_query offline (fetch_sql demo_config ''demo'' (Some ''auth'') ''2026-01-01T00:00:00+00:00'')
        [(''service'', ''STRING'', ''auth'')] = Inl (Failure ''query refused'')"
    by (simp add: offline_def echo_def)
  have n: "PROJECT default_config = None"
    by (simp add: default_config_def)
  from p t j q have "fetch_logs demo_config offline (Some ''auth'') 3 = []"
    by (intro fetch_logs_degrades) blast
  moreover from n have "fetch_logs default_config echo (Some ''auth'') 3 = []"
    by (intro fetch_logs_degrades) blast
  ultimately show ?thesis
    using p q n by simp
qed

section \<open>Properties of the answer composer\<close>

lemma vertex_texts_differ: "vertex_error e \<noteq> vertex_fallback user_prompt n"
  by (simp add: vertex_error_def vertex_fallback_def)

lemma context_rows_take: "context_rows rows = take 50 rows"
  by (simp add: context_rows_def min_def)

text \<open>
  Claim C5, as amended. Without a language model the answer is a fixed text around the
  number of rows and the question, both as they are; the fixed text includes the sentence
  \<open>no major anomalies detected\<close>, whatever the rows hold. When the call of the
  language model or the reading of its first text raises, the answer is the text
  \<open>(Vertex error: ...)\<close> with the message of the exception, which differs from every
  answer of the first kind. The answer is a text in every case: the calls that can raise
  are inside the \<^verbatim>\<open>try\<close>.
\<close>

theorem llm_answer_degrades:
  "(gen co = None \<longrightarrow>
      llm_answer co user_prompt rows =
        ''(Vertex not configured) Based on recent rows ('' @ str_nat (length rows) @
        '' found), no major anomalies detected. Question: '' @ user_prompt)
   \<and> (gen co = Some generate_content
        \<and> bind (generate_content (llm_prompt (json_dumps co) user_prompt rows)) first_text = Inl e \<longrightarrow>
      llm_answer co user_prompt rows = ''(Vertex error: '' @ str_exception e @ '')''
      \<and> llm_answer co user_prompt rows \<noteq> vertex_fallback question n)"
  using vertex_texts_differ [of e question n]
  by (simp add: llm_answer_def vertex_fallback_def vertex_error_def)

theorem llm_answer_degrades_witness:
  "gen offline = None
   \<and> llm_answer offline ''why?'' [(''row one'', []), (''row two'', [])]
       = ''(Vertex not configured) Based on recent rows (2 found), no major anomalies detected. Question: why?''
   \<and> gen broken = Some (\<lambda>prompt. Inr [])
   \<and> llm_answer broken ''why?'' [] = ''(Vertex error: list index out of range)''"
proof -
  have g: "gen offline = None"
    by (simp add: offline_def echo_def)
  have b: "gen broken = Some (\<lambda>prompt. Inr [])"
    by (simp add: broken_def echo_def)
  have f: "bind ((\<lambda>prompt. Inr []) (llm_prompt (json_dumps broken) ''why?'' [])) first_text
             = Inl (IndexError ''list index out of range'')"
    by (simp add: bind_def first_text_def index_def)
  have s2: "str_nat (Suc (Suc 0)) = ''2''"
    by code_simp
  from g llm_answer_degrades [of offline "''why?''" "[(''row one'', []), (''row two'', [])]"]
  have "llm_answer offline ''why?'' [(''row one'', []), (''row two'', [])]
       = ''(Vertex not configured) Based on recent rows (2 found), no major anomalies detected. Question: why?''"
    by (simp add: s2)
  moreover from b f llm_answer_degrades [where co = broken and generate_content = "\<lambda>prompt. Inr []"
      and user_prompt = "''why?''" and rows = "[]" and e = "IndexError ''list index out of range''"]
  have "llm_answer broken ''why?'' [] = ''(Vertex error: list index out of range)''"
    by simp
  ultimately show ?thesis
    using g b by simp
qed

text \<open>
  Claim C5 as it is written says that the fallback makes up no analysis. The fallback
  does state a finding: for one row that reports an outage it says, as for any rows, that
  no major anomalies were detected.
\<close>

theorem llm_fallback_verdict:
  "llm_answer offline ''is auth down?'' [(''severity=CRITICAL summary=auth is down'', [])]
     = ''(Vertex not configured) Based on recent rows (1 found), no major anomalies detected. Question: is auth down?''"
  by code_simp

text \<open>
  Claim C6. The rows that are serialised are the first 50 at most: the prompt, and with
  it the answer of a language model, is the same for the rows and for their first 50.
\<close>

theorem llm_prompt_rows_bounded:
  "length (context_rows rows) \<le> 50
   \<and> context_rows rows = take 50 rows
   \<and> context_snippets dumps rows = (if rows = [] then ''[]'' else dumps (take 50 rows))
   \<and> llm_prompt dumps user_prompt rows = llm_prompt dumps user_prompt (take 50 rows)
   \<and> llm_answer (co\<lparr>gen := Some generate_content\<rparr>) user_prompt rows
       = llm_answer (co\<lparr>gen := Some generate_content\<rparr>) user_prompt (take 50 rows)"
proof -
  have p: "llm_prompt dumps user_prompt rows = llm_prompt dumps user_prompt (take 50 rows)" for dumps
    by (simp add: llm_prompt_def context_snippets_def context_rows_take)
  show ?thesis
    by (simp add: context_rows_take p [symmetric] llm_answer_def context_snippets_def)
qed

section \<open>Properties of the command router\<close>

lemma chat_payload_none:
  assumes "chat_without_payload (field kvs ''chat'')"
  shows "\<exists>v. chat_payload (JObj kvs) ''appCommandPayload'' = Inr v \<and> \<not> truthy v"
    and "\<exists>v. chat_payload (JObj kvs) ''messagePayload'' = Inr v \<and> \<not> truthy v"
proof -
  show "\<exists>v. chat_payload (JObj kvs) ''appCommandPayload'' = Inr v \<and> \<not> truthy v"
  proof (cases "truthy (field kvs ''chat'')")
    case False
    then show ?thesis
      by (simp add: chat_payload_def bind_Inr field_def)
  next
    case True
    with assms obtain ckvs where c: "field kvs ''chat'' = JObj ckvs"
      by (cases "field kvs ''chat''") auto
    with True have "map_of kvs ''chat'' = Some (JObj ckvs)"
      by (auto simp: field_def split: option.splits)
    with assms c True show ?thesis
      by (simp add: chat_payload_def bind_Inr field_def)
  qed
  show "\<exists>v. chat_payload (JObj kvs) ''messagePayload'' = Inr v \<and> \<not> truthy v"
  proof (cases "truthy (field kvs ''chat'')")
    case False
    then show ?thesis
      by (simp add: chat_payload_def bind_Inr field_def)
  next
    case True
    with assms obtain ckvs where c: "field kvs ''chat'' = JObj ckvs"
      by (cases "field kvs ''chat''") auto
    with True have "map_of kvs ''chat'' = Some (JObj ckvs)"
      by (auto simp: field_def split: option.splits)
    with assms c True show ?thesis
      by (simp add: chat_payload_def bind_Inr field_def)
  qed
qed

lemma event_thread_name_readable:
  assumes "readable_thread (field kvs ''message'')"
  shows "\<exists>n. event_thread_name (JObj kvs) = Inr n"
proof (cases "truthy (field kvs ''message'')")
  case False
  then show ?thesis
    by (simp add: event_thread_name_def bind_Inr field_def)
next
  case True
  with assms obtain mkvs where m: "field kvs ''message'' = JObj mkvs"
    by (cases "field kvs ''message''") auto
  with True have s: "map_of kvs ''message'' = Some (JObj mkvs)"
    by (auto simp: field_def split: option.splits)
  from assms m have "map_of mkvs ''thread'' = None \<or> (\<exists>tkvs. map_of mkvs ''thread'' = Some (JObj tkvs))"
    by (auto split: option.splits json.splits)
  with s True m show ?thesis
    by (auto simp: event_thread_name_def bind_Inr field_def)
qed

text \<open>
  Claim C7, as amended. An event object whose type is \<open>ADDED_TO_SPACE\<close> gets the static
  greeting when it carries no payload of a slash command or a mention (its member
  \<^verbatim>\<open>chat\<close> is missing or false, or an object without a true \<^verbatim>\<open>appCommandPayload\<close>
  and without a true \<^verbatim>\<open>messagePayload\<close>) and its thread name can be read (its member
  \<^verbatim>\<open>message\<close> is missing or false, or an object whose \<^verbatim>\<open>thread\<close> is missing or an
  object). Its other members play no part.
\<close>

theorem added_to_space_greeting:
  assumes "map_of kvs ''type'' = Some (JStr ''ADDED_TO_SPACE'')"
    and "chat_without_payload (field kvs ''chat'')"
    and "readable_thread (field kvs ''message'')"
  shows "chat_endpoint cfg co (JObj kvs) = Inr (JObj [(''text'', JStr greeting)])"
proof -
  from chat_payload_none [OF assms(2)] obtain slash mention where
    "chat_payload (JObj kvs) ''appCommandPayload'' = Inr slash" "\<not> truthy slash"
    "chat_payload (JObj kvs) ''messagePayload'' = Inr mention" "\<not> truthy mention"
    by blast
  moreover from event_thread_name_readable [OF assms(3)] obtain n where
    "event_thread_name (JObj kvs) = Inr n"
    by blast
  ultimately show ?thesis
    using assms(1) by (simp add: chat_endpoint_def bind_Inr)
qed

theorem added_to_space_greeting_witness:
  "map_of space_event ''type'' = Some (JStr ''ADDED_TO_SPACE'')
   \<and> chat_without_payload (field space_event ''chat'')
   \<and> readable_thread (field space_event ''message'')
   \<and> chat_endpoint default_config offline (JObj space_event) = Inr (JObj [(''text'', JStr greeting)])"
proof -
  have t: "map_of space_event ''type'' = Some (JStr ''ADDED_TO_SPACE'')"
    by (simp add: space_event_def)
  have c: "chat_without_payload (field space_event ''chat'')"
    by (simp add: space_event_def field_def)
  have m: "readable_thread (field space_event ''message'')"
    by (simp add: space_event_def field_def)
  from t c m added_to_space_greeting [OF t c m, of default_config offline] show ?thesis
    by simp
qed

text \<open>
  Claim C7 as it is written fails in two ways. The payload of a slash command is looked
  for before the type: an event of type \<open>ADDED_TO_SPACE\<close> that carries one is answered
  by the pipeline. And the thread name is read before the type is tested: a
  \<^verbatim>\<open>message\<close> member that is a text raises AttributeError.
\<close>

theorem added_to_space_other_fields:
  "chat_endpoint default_config offline
     (JObj [(''type'', JStr ''ADDED_TO_SPACE''),
            (''chat'', JObj [(''appCommandPayload'',
               JObj [(''message'', JObj [(''argumentText'', JStr ''ping'')])])])])
     = Inr (JObj [(''text'', JStr (''**Q:** ping'' @ [CHR 0x0A] @
                    ''**A:** (Vertex not configured) Based on recent rows (0 found), no major anomalies detected. Question: ping'')),
                  (''thread'', JNull)])
   \<and> chat_endpoint default_config offline
         (JObj [(''type'', JStr ''ADDED_TO_SPACE''), (''message'', JStr ''hi'')])
       = Inl (AttributeError ''object has no attribute get'')"
  by code_simp

lemma ask_response_thread:
  "\<exists>response_text.
     ask_response cfg co text thread_name =
       Inr (JObj [(''text'', JStr response_text),
                  (''thread'', thread_field thread_name)])"
proof -
  from parse_returns [of "ASK_DEFAULT_SINCE_DAYS cfg" "text"]
  obtain question service since_days where
    "parse_prompt_and_filters (ASK_DEFAULT_SINCE_DAYS cfg) text = Inr (question, service, since_days)"
    by blast
  then show ?thesis
    by (simp add: ask_response_def bind_Inr Let_def)
qed

text \<open>
  The router is its route followed by the response: a static text alone, or the
  response of the pipeline.
\<close>

lemma payload_reply_route:
  "payload_reply cfg co event key usage =
     bind (payload_route event key usage)
       (\<lambda>r. case r of Static s \<Rightarrow> Inr (JObj [(''text'', JStr s)])
                     | Pipeline t n \<Rightarrow> ask_response cfg co t n)"
  by (simp add: payload_reply_def payload_route_def bind_def split: sum.splits)

lemma chat_endpoint_route:
  "chat_endpoint cfg co event =
     bind (route event)
       (\<lambda>r. case r of Static s \<Rightarrow> Inr (JObj [(''text'', JStr s)])
                     | Pipeline t n \<Rightarrow> ask_response cfg co t n)"
  by (simp add: chat_endpoint_def route_def payload_reply_route bind_def split: sum.splits)

lemma payload_route_static:
  "payload_route event key usage = Inr (Static s) \<Longrightarrow> s = usage"
  by (auto simp: payload_route_def bind_eq_Inr split: if_splits)

lemma route_static:
  assumes "route event = Inr (Static s)"
  shows "s = greeting \<or> s = usage_ask \<or> s = usage_mention \<or> s = default_text"
  using assms
  by (auto simp: route_def bind_eq_Inr split: if_splits dest: payload_route_static)

text \<open>
  The thread name that a route hands to the pipeline was read from a message of the
  event, or is \<^verbatim>\<open>None\<close> because the event has no message.
\<close>

lemma payload_route_thread:
  assumes "payload_route event key usage = Inr (Pipeline t n)"
  shows "\<exists>chat payload message thread.
           item event ''chat'' = Inr chat \<and> item chat key = Inr payload
           \<and> get payload ''message'' (JObj []) = Inr message
           \<and> get message ''thread'' (JObj []) = Inr thread
           \<and> get thread ''name'' JNull = Inr n"
  using assms
  by (auto simp: payload_route_def bind_eq_Inr split: if_splits)

lemma event_thread_name_read:
  assumes "event_thread_name event = Inr n"
  shows "n = JNull
         \<or> (\<exists>message thread. get event ''message'' (JObj []) = Inr message
               \<and> get message ''thread'' (JObj []) = Inr thread
               \<and> get thread ''name'' JNull = Inr n)"
  using assms
  by (auto simp: event_thread_name_def bind_eq_Inr split: if_splits)

lemma route_thread:
  assumes "route event = Inr (Pipeline t n)"
  shows "n = JNull
         \<or> (\<exists>message thread.
               (get event ''message'' (JObj []) = Inr message
                \<or> (\<exists>chat payload. item event ''chat'' = Inr chat
                      \<and> (item chat ''appCommandPayload'' = Inr payload
                          \<or> item chat ''messagePayload'' = Inr payload)
                      \<and> get payload ''message'' (JObj []) = Inr message))
               \<and> get message ''thread'' (JObj []) = Inr thread
               \<and> get thread ''name'' JNull = Inr n)"
proof -
  from assms consider
      "payload_route event ''appCommandPayload'' usage_ask = Inr (Pipeline t n)"
    | "payload_route event ''messagePayload'' usage_mention = Inr (Pipeline t n)"
    | "event_thread_name event = Inr n"
    by (auto simp: route_def bind_eq_Inr split: if_splits)
  then show ?thesis
  proof cases
    case 1
    from payload_route_thread [OF this] show ?thesis by blast
  next
    case 2
    from payload_route_thread [OF this] show ?thesis by blast
  next
    case 3
    from event_thread_name_read [OF this] show ?thesis by blast
  qed
qed

text \<open>
  Claim C8, as amended. Every event takes one route. On a route into the pipeline the
  response has the two members \<^verbatim>\<open>text\<close> and \<^verbatim>\<open>thread\<close>: the thread is the object
  that holds the thread name read from the event's message, unchanged, when that name is
  present and true, and \<^verbatim>\<open>None\<close> (JSON null) otherwise; the member is not left out,
  and no name is made up. On every other route the response is one of the four static
  texts alone (greeting, the two usage texts, fallback help), without a member
  \<^verbatim>\<open>thread\<close>, whatever thread the event carries. When routing raises, so does the
  router.
\<close>

theorem thread_echo:
  "(route event = Inr (Pipeline t n) \<longrightarrow>
      (\<exists>response_text.
         chat_endpoint cfg co event =
           Inr (JObj [(''text'', JStr response_text),
                      (''thread'', if truthy n then JObj [(''name'', n)] else JNull)]))
      \<and> (n = JNull
          \<or> (\<exists>message thread.
                (get event ''message'' (JObj []) = Inr message
                 \<or> (\<exists>chat payload. item event ''chat'' = Inr chat
                       \<and> (item chat ''appCommandPayload'' = Inr payload
                           \<or> item chat ''messagePayload'' = Inr payload)
                       \<and> get payload ''message'' (JObj []) = Inr message))
                \<and> get message ''thread'' (JObj []) = Inr thread
                \<and> get thread ''name'' JNull = Inr n)))
   \<and> (route event = Inr (Static s) \<longrightarrow>
        chat_endpoint cfg co event = Inr (JObj [(''text'', JStr s)])
        \<and> (s = greeting \<or> s = usage_ask \<or> s = usage_mention \<or> s = default_text))
   \<and> (route event = Inl e \<longrightarrow> chat_endpoint cfg co event = Inl e)"
proof -
  have "\<exists>response_text.
         chat_endpoint cfg co event =
           Inr (JObj [(''text'', JStr response_text),
                      (''thread'', if truthy n then JObj [(''name'', n)] else JNull)])"
    if "route event = Inr (Pipeline t n)"
    using that ask_response_thread [of cfg co t n]
    by (simp add: chat_endpoint_route bind_Inr thread_field_def)
  moreover have "chat_endpoint cfg co event = Inr (JObj [(''text'', JStr s)])"
    if "route event = Inr (Static s)"
    using that by (simp add: chat_endpoint_route bind_Inr)
  moreover have "chat_endpoint cfg co event = Inl e" if "route event = Inl e"
    using that by (simp add: chat_endpoint_route bind_Inl)
  ultimately show ?thesis
    using route_thread [of event t n] route_static [of event s] by blast
qed

theorem thread_echo_witness:
  "route threaded_message = Inr (Pipeline ''ping'' (JStr ''spaces/A/threads/B''))
   \<and> (\<exists>response_text.
         chat_endpoint default_config offline threaded_message =
           Inr (JObj [(''text'', JStr response_text),
                      (''thread'', JObj [(''name'', JStr ''spaces/A/threads/B'')])]))
   \<and> route (JObj space_event) = Inr (Static greeting)
   \<and> chat_endpoint default_config offline (JObj space_event) = Inr (JObj [(''text'', JStr greeting)])"
proof -
  have p: "route threaded_message = Inr (Pipeline ''ping'' (JStr ''spaces/A/threads/B''))"
    by code_simp
  have s: "route (JObj space_event) = Inr (Static greeting)"
    by code_simp
  from p thread_echo [where event = threaded_message and t = "''ping''"
      and n = "JStr ''spaces/A/threads/B''" and cfg = default_config and co = offline]
  have "\<exists>response_text.
         chat_endpoint default_config offline threaded_message =
           Inr (JObj [(''text'', JStr response_text),
                      (''thread'', JObj [(''name'', JStr ''spaces/A/threads/B'')])])"
    by simp
  moreover from s thread_echo [where event = "JObj space_event" and s = greeting
      and cfg = default_config and co = offline]
  have "chat_endpoint default_config offline (JObj space_event) = Inr (JObj [(''text'', JStr greeting)])"
    by simp
  ultimately show ?thesis
    using p s by simp
qed

text \<open>
  Claim C8 as it is written fails in both halves. The greeting does not echo the thread
  of its event; and a pipeline response to an event without a thread has the member
  \<^verbatim>\<open>thread\<close>, with the value null.
\<close>

theorem thread_dropped_or_null:
  "chat_endpoint default_config offline
     (JObj [(''type'', JStr ''ADDED_TO_SPACE''),
            (''message'', JObj [(''thread'', JObj [(''name'', JStr ''spaces/A/threads/B'')])])])
     = Inr (JObj [(''text'', JStr greeting)])
   \<and> chat_endpoint default_config offline
         (JObj [(''type'', JStr ''MESSAGE''), (''message'', JObj [(''text'', JStr ''ping'')])])
       = Inr (JObj [(''text'', JStr (''**Q:** ping'' @ [CHR 0x0A] @
                      ''**A:** (Vertex not configured) Based on recent rows (0 found), no major anomalies detected. Question: ping'')),
                    (''thread'', JNull)])"
  by code_simp

text \<open>
  The helper \<open>reply_text\<close>, which no route calls, is the one place that leaves the
  member out.
\<close>

lemma reply_text_omits_thread:
  "reply_text t None = JObj [(''text'', JStr t)]
   \<and> reply_text t (Some []) = JObj [(''text'', JStr t)]
   \<and> reply_text t (Some (c # cs)) = JObj [(''text'', JStr t), (''thread'', JObj [(''name'', JStr (c # cs))])]"
  by (simp add: reply_text_def)

section \<open>Properties of the alert notification\<close>

lemma severity_emoji_cases:
  "severity_emoji severity =
     (if upper severity = code_points ''LOW'' then [0x1F7E1]
      else if upper severity = code_points ''MEDIUM'' then [0x1F7E0]
      else if upper severity = code_points ''HIGH'' then [0x1F534]
      else if upper severity = code_points ''CRITICAL'' then [0x1F6A8]
      else [0x26AA])"
  by (simp add: severity_emoji_def severity_glyphs_def)

lemma starts_append: "\<exists>r. m = p @ r \<Longrightarrow> \<exists>r. m @ x = p @ r"
  by auto

text \<open>The message starts with the glyph and the title, whatever is appended later.\<close>

lemma notification_starts:
  "\<exists>rest. format_error_notification now alert =
     severity_emoji (alert_severity alert) @ code_points '' **Production Error Alert**'' @ rest"
proof -
  define p where "p = severity_emoji (alert_severity alert) @ code_points '' **Production Error Alert**''"
  define timestamp where "timestamp =
    (case alert_timestamp alert of Some t \<Rightarrow> if t \<noteq> [] then t else now | None \<Rightarrow> now)"
  define m0 where "m0 = notification_head (severity_emoji (alert_severity alert)) alert timestamp"
  define m1 where "m1 =
            (case alert_affected_users alert of
               Some n \<Rightarrow> if n \<noteq> 0
                         then m0 @ code_points (nl @ ''**Affected Users:** ~'' @ str_int n)
                         else m0
             | None \<Rightarrow> m0)"
  define m2 where "m2 =
            (case alert_stack_trace alert of
               Some st \<Rightarrow>
                 if st \<noteq> [] then
                   (let truncated_trace = (if length st > 200 then take 200 st @ ''...'' else st)
                    in m1 @ code_points (nl @ ''**Stack Trace:** ```'' @ truncated_trace @ ''```''))
                 else m1
             | None \<Rightarrow> m1)"
  define m3 where "m3 =
            (case alert_recent_logs alert of
               Some logs \<Rightarrow>
                 if logs \<noteq> []
                 then m2 @ code_points
                        (nl @ ''**Recent Logs:** '' @ str_nat (length logs) @ '' entries available'')
                 else m2
             | None \<Rightarrow> m2)"
  have 0: "\<exists>r. m0 = p @ r"
    unfolding m0_def p_def notification_head_def by simp
  have 1: "\<exists>r. m1 = p @ r"
    unfolding m1_def using 0 by (auto split: option.splits intro: starts_append)
  have 2: "\<exists>r. m2 = p @ r"
    unfolding m2_def Let_def using 1 by (auto split: option.splits intro: starts_append)
  have 3: "\<exists>r. m3 = p @ r"
    unfolding m3_def using 2 by (auto split: option.splits intro: starts_append)
  have "format_error_notification now alert =
          m3 @ (code_points (nl @ nl) @ [0x1F4AC] @
                code_points '' *Type `/ask <question>` to investigate this error*'')"
    unfolding format_error_notification_def Let_def m3_def m2_def m1_def m0_def timestamp_def Let_def
    by (rule refl)
  with 3 [THEN starts_append] show ?thesis
    unfolding p_def by simp
qed

text \<open>
  Claim C10. The glyph is looked up by the upper-case form of the severity: the yellow,
  orange and red circles and the rotating light for the forms \<open>LOW\<close>, \<open>MEDIUM\<close>,
  \<open>HIGH\<close> and \<open>CRITICAL\<close>, the white circle exactly when the form is none of the four.
  So \<open>critical\<close> and \<open>Low\<close> get the glyphs of \<open>CRITICAL\<close> and \<open>LOW\<close>. The glyph
  looked up is the one that opens the notification.
\<close>

theorem severity_glyph_case_insensitive:
  "severity_emoji severity =
     (if upper severity = code_points ''LOW'' then [0x1F7E1]
      else if upper severity = code_points ''MEDIUM'' then [0x1F7E0]
      else if upper severity = code_points ''HIGH'' then [0x1F534]
      else if upper severity = code_points ''CRITICAL'' then [0x1F6A8]
      else [0x26AA])
   \<and> (severity_emoji severity = [0x26AA] \<longleftrightarrow>
        upper severity \<notin> {code_points ''LOW'', code_points ''MEDIUM'',
                            code_points ''HIGH'', code_points ''CRITICAL''})
   \<and> severity_emoji ''critical'' = [0x1F6A8]
   \<and> severity_emoji ''Low'' = [0x1F7E1]
   \<and> (\<exists>rest. format_error_notification now alert =
         severity_emoji (alert_severity alert) @ code_points '' **Production Error Alert**'' @ rest)"
proof -
  have "severity_emoji ''critical'' = [0x1F6A8]"
    by (simp add: severity_emoji_cases upper_def upper_char_def code_points_def)
  moreover have "severity_emoji ''Low'' = [0x1F7E1]"
    by (simp add: severity_emoji_cases upper_def upper_char_def code_points_def)
  moreover have "severity_emoji severity = [0x26AA] \<longleftrightarrow>
        upper severity \<notin> {code_points ''LOW'', code_points ''MEDIUM'',
                            code_points ''HIGH'', code_points ''CRITICAL''}"
    by (simp add: severity_emoji_cases)
  ultimately show ?thesis
    using severity_emoji_cases [of severity] notification_starts [of now alert]
    by blast
qed

end
